theory Spec2Isabelle
  imports Main "HOL-Library.Multiset" "HOL-Library.AList"
begin

section \<open>Values of the request body\<close>

text \<open>
  The controller \<^verbatim>\<open>backend/controllers/diagnosisController.js\<close> works on the parsed JSON
  body of a request. A body is a JavaScript value: \<open>Undefined\<close> stands for a field that
  is absent, an object is the list of its own fields (a parsed object has each key once;
  \<open>getProp\<close> reads the first). Numbers are never computed with by the controller, only
  tested for truthiness, so an integer payload is enough. Strings are Isabelle strings.
\<close>

datatype jsval =
    Undefined
  | Null
  | Bool bool
  | Num int
  | Str string
  | Arr "jsval list"
  | Obj "(string \<times> jsval) list"

text \<open>
  What the controller can throw. A \<open>TypeError\<close> is raised by the language (a property of
  \<^verbatim>\<open>undefined\<close>, a call of something that is no function); a \<open>StoreError\<close> is whatever the
  document store rejects a call with. Every handler catches both and hands them to
  \<^verbatim>\<open>next(error)\<close>.
\<close>

datatype js_error = TypeError | StoreError string

fun nullish :: "jsval \<Rightarrow> bool" where
  "nullish Undefined = True"
| "nullish Null = True"
| "nullish _ = False"

text \<open>\<^verbatim>\<open>!v\<close> is true for the falsy values.\<close>

fun falsy :: "jsval \<Rightarrow> bool" where
  "falsy Undefined = True"
| "falsy Null = True"
| "falsy (Bool b) = (\<not> b)"
| "falsy (Num n) = (n = 0)"
| "falsy (Str s) = (s = [])"
| "falsy (Arr xs) = False"
| "falsy (Obj kv) = False"

fun isArray :: "jsval \<Rightarrow> bool" where
  "isArray (Arr xs) = True"
| "isArray _ = False"

text \<open>
  \<open>getProp v k\<close> is \<^verbatim>\<open>v.k\<close> for a receiver that is neither \<^verbatim>\<open>undefined\<close> nor \<^verbatim>\<open>null\<close>.
  The keys this controller reads (\<^verbatim>\<open>symptoms\<close>, \<^verbatim>\<open>symptom\<close>, \<^verbatim>\<open>testResults\<close>, \<^verbatim>\<open>malaria\<close>,
  \<^verbatim>\<open>rapidTest\<close>, ...) are no index, not \<^verbatim>\<open>length\<close> and no prototype member, so on a string,
  an array, a number or a boolean they read \<^verbatim>\<open>undefined\<close>.
\<close>

fun getProp :: "jsval \<Rightarrow> string \<Rightarrow> jsval" where
  "getProp (Obj kv) k = (case map_of kv k of Some v \<Rightarrow> v | None \<Rightarrow> Undefined)"
| "getProp _ k = Undefined"

text \<open>\<open>member v k\<close> is \<^verbatim>\<open>v.k\<close>: it throws on \<^verbatim>\<open>undefined\<close> and \<^verbatim>\<open>null\<close>.\<close>

definition member :: "jsval \<Rightarrow> string \<Rightarrow> js_error + jsval" where
  "member v k = (if nullish v then Inl TypeError else Inr (getProp v k))"

text \<open>\<open>optchain v k\<close> is \<^verbatim>\<open>v?.k\<close>: \<^verbatim>\<open>undefined\<close> on \<^verbatim>\<open>undefined\<close> and \<^verbatim>\<open>null\<close>.\<close>

definition optchain :: "jsval \<Rightarrow> string \<Rightarrow> jsval" where
  "optchain v k = (if nullish v then Undefined else getProp v k)"

subsection \<open>Lowercasing\<close>

text \<open>
  \<^verbatim>\<open>String.prototype.toLowerCase\<close> on the characters of an Isabelle string: the letters
  \<^verbatim>\<open>A\<close> to \<^verbatim>\<open>Z\<close> go to \<^verbatim>\<open>a\<close> to \<^verbatim>\<open>z\<close>, every other character stays. The strings of
  the model are ASCII text; capital letters beyond ASCII, which JavaScript lowercases as
  well, are not represented.
\<close>

definition lower_char :: "char \<Rightarrow> char" where
  "lower_char c =
     (case map_of (zip ''ABCDEFGHIJKLMNOPQRSTUVWXYZ'' ''abcdefghijklmnopqrstuvwxyz'') c of
        Some l \<Rightarrow> l
      | None \<Rightarrow> c)"

definition toLowerCase :: "string \<Rightarrow> string" where
  "toLowerCase s = map lower_char s"

text \<open>
  \<^verbatim>\<open>v.toLowerCase()\<close> on a value: only a string has the method; on \<^verbatim>\<open>undefined\<close> the
  property read throws, on anything else the call of a non-function throws.
\<close>

fun callToLowerCase :: "jsval \<Rightarrow> js_error + string" where
  "callToLowerCase (Str s) = Inr (toLowerCase s)"
| "callToLowerCase _ = Inl TypeError"

section \<open>The expert system\<close>

definition malariaSymptoms :: "string list" where
  "malariaSymptoms =
     [''fever'', ''chills'', ''headache'', ''muscle aches'', ''fatigue'', ''nausea'',
      ''vomiting'', ''diarrhea'', ''abdominal pain'', ''sweating'', ''shivering'']"

definition typhoidSymptoms :: "string list" where
  "typhoidSymptoms =
     [''fever'', ''headache'', ''weakness'', ''stomach pain'', ''constipation'',
      ''diarrhea'', ''loss of appetite'', ''rash'', ''enlarged spleen'', ''rose spots'',
      ''dry cough'']"

text \<open>
  The callback \<^verbatim>\<open>s => catalog.includes(s.symptom.toLowerCase())\<close>. It throws when the
  entry is \<^verbatim>\<open>null\<close> or its \<^verbatim>\<open>symptom\<close> is not a string.
\<close>

definition includesSymptom :: "string list \<Rightarrow> jsval \<Rightarrow> js_error + bool" where
  "includesSymptom catalog s =
     (case member s ''symptom'' of
        Inl e \<Rightarrow> Inl e
      | Inr v \<Rightarrow> (case callToLowerCase v of
                    Inl e \<Rightarrow> Inl e
                  | Inr n \<Rightarrow> Inr (n \<in> set catalog)))"

text \<open>
  \<^verbatim>\<open>Array.prototype.filter\<close> with a callback that may throw: the elements are visited in
  order and the first throw ends the call.
\<close>

fun filterE :: "('a \<Rightarrow> js_error + bool) \<Rightarrow> 'a list \<Rightarrow> js_error + 'a list" where
  "filterE p [] = Inr []"
| "filterE p (x # xs) =
     (case p x of
        Inl e \<Rightarrow> Inl e
      | Inr b \<Rightarrow> (case filterE p xs of
                    Inl e \<Rightarrow> Inl e
                  | Inr r \<Rightarrow> Inr (if b then x # r else r)))"

text \<open>\<^verbatim>\<open>symptoms.filter(...)\<close>: a value that is no array has no \<^verbatim>\<open>filter\<close> to call.\<close>

definition filterSymptoms :: "string list \<Rightarrow> jsval \<Rightarrow> js_error + jsval list" where
  "filterSymptoms catalog symptoms =
     (case symptoms of
        Arr xs \<Rightarrow> filterE (includesSymptom catalog) xs
      | _ \<Rightarrow> Inl TypeError)"

record assessment =
  riskLevel :: string
  score :: nat

definition assessMalariaRisk :: "jsval \<Rightarrow> jsval \<Rightarrow> js_error + assessment" where
  "assessMalariaRisk symptoms testResults =
     (case filterSymptoms malariaSymptoms symptoms of
        Inl e \<Rightarrow> Inl e
      | Inr matched \<Rightarrow>
          (let malariaScore = length matched in
           Inr \<lparr> riskLevel =
                   (if malariaScore \<ge> 5
                       \<or> optchain testResults ''rapidTest'' = Str ''positive''
                       \<or> optchain testResults ''microscopy'' = Str ''positive''
                    then ''high''
                    else if malariaScore \<ge> 3 then ''moderate''
                    else ''low''),
                 score = malariaScore \<rparr>))"

definition assessTyphoidRisk :: "jsval \<Rightarrow> jsval \<Rightarrow> js_error + assessment" where
  "assessTyphoidRisk symptoms testResults =
     (case filterSymptoms typhoidSymptoms symptoms of
        Inl e \<Rightarrow> Inl e
      | Inr matched \<Rightarrow>
          (let typhoidScore = length matched in
           Inr \<lparr> riskLevel =
                   (if typhoidScore \<ge> 5
                       \<or> optchain testResults ''widalTest'' = Str ''positive''
                       \<or> optchain testResults ''bloodCulture'' = Str ''positive''
                    then ''high''
                    else if typhoidScore \<ge> 3 then ''moderate''
                    else ''low''),
                 score = typhoidScore \<rparr>))"

section \<open>The assessment endpoint\<close>

text \<open>
  What a handler sees of a request: the parsed body, the errors the route's validation
  chain has collected (\<^verbatim>\<open>validationResult(req).array()\<close>; the chains are declared in the
  routes file and run by the validation library before the handler), the authenticated
  user's id and the \<^verbatim>\<open>:id\<close> of the path.
\<close>

record request =
  body :: jsval
  validationErrors :: "jsval list"
  userId :: jsval
  paramsId :: jsval

record recommended = assessment +
  recommendation :: string

record matched = recommended +
  matchingSymptoms :: "jsval list"

text \<open>
  What a handler answers: \<open>Failure status error details\<close> is
  \<^verbatim>\<open>res.status(status).json({success: false, error, details})\<close>, the three successes are the
  200 of the assessment, the 201 of a creation and the 200 of an update, and \<open>Next e\<close> is
  \<^verbatim>\<open>next(e)\<close> in the handler's \<^verbatim>\<open>catch\<close>.
\<close>

datatype response =
    Failure nat string "jsval list option"
  | AssessmentOk matched matched
  | DiagnosisCreated jsval recommended recommended
  | DiagnosisOk jsval
  | Next js_error

text \<open>\<^verbatim>\<open>Array.prototype.map\<close> with a callback that may throw.\<close>

fun mapE :: "('a \<Rightarrow> js_error + 'b) \<Rightarrow> 'a list \<Rightarrow> js_error + 'b list" where
  "mapE f [] = Inr []"
| "mapE f (x # xs) =
     (case f x of
        Inl e \<Rightarrow> Inl e
      | Inr y \<Rightarrow> (case mapE f xs of
                    Inl e \<Rightarrow> Inl e
                  | Inr ys \<Rightarrow> Inr (y # ys)))"

text \<open>\<^verbatim>\<open>symptoms.filter(s => catalog.includes(...)).map(s => s.symptom)\<close>\<close>

definition matchingOf :: "string list \<Rightarrow> jsval \<Rightarrow> js_error + jsval list" where
  "matchingOf catalog symptoms =
     (case filterSymptoms catalog symptoms of
        Inl e \<Rightarrow> Inl e
      | Inr kept \<Rightarrow> mapE (\<lambda>s. member s ''symptom'') kept)"

definition getExpertSystemAssessment :: "request \<Rightarrow> response" where
  "getExpertSystemAssessment req =
     (if nullish (body req) then Next TypeError
      else
        let symptoms = getProp (body req) ''symptoms'';
            testResults = getProp (body req) ''testResults''
        in
        if falsy symptoms \<or> \<not> isArray symptoms \<or> symptoms = Arr []
        then Failure 400 ''Symptoms array is required'' None
        else
          (case assessMalariaRisk symptoms (optchain testResults ''malaria'') of
             Inl e \<Rightarrow> Next e
           | Inr malariaAssessment \<Rightarrow>
          (case assessTyphoidRisk symptoms (optchain testResults ''typhoid'') of
             Inl e \<Rightarrow> Next e
           | Inr typhoidAssessment \<Rightarrow>
          (case matchingOf malariaSymptoms symptoms of
             Inl e \<Rightarrow> Next e
           | Inr malariaMatching \<Rightarrow>
          (case matchingOf typhoidSymptoms symptoms of
             Inl e \<Rightarrow> Next e
           | Inr typhoidMatching \<Rightarrow>
              AssessmentOk
                \<lparr> riskLevel = riskLevel malariaAssessment,
                  score = score malariaAssessment,
                  recommendation =
                    (if riskLevel malariaAssessment = ''high''
                     then ''Immediate malaria testing and treatment recommended''
                     else if riskLevel malariaAssessment = ''moderate''
                     then ''Consider malaria testing''
                     else ''Low malaria risk''),
                  matchingSymptoms = malariaMatching \<rparr>
                \<lparr> riskLevel = riskLevel typhoidAssessment,
                  score = score typhoidAssessment,
                  recommendation =
                    (if riskLevel typhoidAssessment = ''high''
                     then ''Immediate typhoid testing and treatment recommended''
                     else if riskLevel typhoidAssessment = ''moderate''
                     then ''Consider typhoid testing''
                     else ''Low typhoid risk''),
                  matchingSymptoms = typhoidMatching \<rparr>)))))"

section \<open>Creating and updating a diagnosis\<close>

text \<open>
  The document store is outside the controller. A handler meets it through four calls,
  each of which returns a value or throws: \<^verbatim>\<open>Patient.findById\<close>, \<^verbatim>\<open>Appointment.findById\<close>,
  \<^verbatim>\<open>Diagnosis.create\<close> (with the \<^verbatim>\<open>populate\<close> that follows it) and
  \<^verbatim>\<open>Diagnosis.findByIdAndUpdate\<close> (with its \<^verbatim>\<open>populate\<close>). They are parameters of the model.
\<close>

record db =
  patientFindById :: "jsval \<Rightarrow> js_error + jsval"
  appointmentFindById :: "jsval \<Rightarrow> js_error + jsval"
  diagnosisCreate :: "jsval \<Rightarrow> js_error + jsval"
  diagnosisFindByIdAndUpdate :: "jsval \<Rightarrow> jsval \<Rightarrow> js_error + jsval"

text \<open>The decimal numeral of an index, the key under which a spread copies an element.\<close>

fun decimal :: "nat \<Rightarrow> string" where
  "decimal n =
     (if n < 10 then [char_of (48 + n)]
      else decimal (n div 10) @ [char_of (48 + n mod 10)])"

declare decimal.simps [simp del]

text \<open>
  \<^verbatim>\<open>{...v}\<close> copies the own enumerable fields of \<open>v\<close>: the fields of an object, the
  elements of an array and the characters of a string under their indices, and nothing of
  \<^verbatim>\<open>undefined\<close>, \<^verbatim>\<open>null\<close>, a number or a boolean.
\<close>

fun spread :: "jsval \<Rightarrow> (string \<times> jsval) list" where
  "spread (Obj kv) = kv"
| "spread (Arr xs) = zip (map decimal [0..<length xs]) xs"
| "spread (Str s) = zip (map decimal [0..<length s]) (map (\<lambda>c. Str [c]) s)"
| "spread _ = []"

text \<open>
  The object literal \<^verbatim>\<open>diagnosisData\<close> of \<^verbatim>\<open>createDiagnosis\<close>: a field written after a
  spread replaces the copied one of the same key (\<open>AList.update\<close>) or is added.
  \<^verbatim>\<open>
    { ...req.body,
      doctor: req.user.id,
      malariaAssessment: { ...req.body.malariaAssessment, riskLevel: malariaAssessment.riskLevel },
      typhoidAssessment: { ...req.body.typhoidAssessment, riskLevel: typhoidAssessment.riskLevel } }
  \<close>
\<close>

definition diagnosisData :: "request \<Rightarrow> assessment \<Rightarrow> assessment \<Rightarrow> jsval" where
  "diagnosisData req malariaAssessment typhoidAssessment =
     Obj (AList.update ''typhoidAssessment''
            (Obj (AList.update ''riskLevel'' (Str (riskLevel typhoidAssessment))
                    (spread (getProp (body req) ''typhoidAssessment''))))
         (AList.update ''malariaAssessment''
            (Obj (AList.update ''riskLevel'' (Str (riskLevel malariaAssessment))
                    (spread (getProp (body req) ''malariaAssessment''))))
         (AList.update ''doctor'' (userId req)
            (spread (body req)))))"

definition createDiagnosis :: "db \<Rightarrow> request \<Rightarrow> response" where
  "createDiagnosis store req =
     (if validationErrors req \<noteq> []
      then Failure 400 ''Validation failed'' (Some (validationErrors req))
      else if nullish (body req) then Next TypeError
      else
        let patient = getProp (body req) ''patient'';
            appointment = getProp (body req) ''appointment'';
            symptoms = getProp (body req) ''symptoms''
        in
        (case patientFindById store patient of
           Inl e \<Rightarrow> Next e
         | Inr patientExists \<Rightarrow>
        if falsy patientExists then Failure 404 ''Patient not found'' None
        else
        (case appointmentFindById store appointment of
           Inl e \<Rightarrow> Next e
         | Inr appointmentExists \<Rightarrow>
        if falsy appointmentExists then Failure 404 ''Appointment not found'' None
        else
        (case assessMalariaRisk symptoms
                (optchain (getProp (body req) ''malariaAssessment'') ''testResults'') of
           Inl e \<Rightarrow> Next e
         | Inr malariaAssessment \<Rightarrow>
        (case assessTyphoidRisk symptoms
                (optchain (getProp (body req) ''typhoidAssessment'') ''testResults'') of
           Inl e \<Rightarrow> Next e
         | Inr typhoidAssessment \<Rightarrow>
        (case diagnosisCreate store (diagnosisData req malariaAssessment typhoidAssessment) of
           Inl e \<Rightarrow> Next e
         | Inr diagnosis \<Rightarrow>
            DiagnosisCreated diagnosis
              \<lparr> riskLevel = riskLevel malariaAssessment,
                score = score malariaAssessment,
                recommendation =
                  (if riskLevel malariaAssessment = ''high''
                   then ''Immediate malaria testing and treatment recommended''
                   else if riskLevel malariaAssessment = ''moderate''
                   then ''Consider malaria testing''
                   else ''Low malaria risk'') \<rparr>
              \<lparr> riskLevel = riskLevel typhoidAssessment,
                score = score typhoidAssessment,
                recommendation =
                  (if riskLevel typhoidAssessment = ''high''
                   then ''Immediate typhoid testing and treatment recommended''
                   else if riskLevel typhoidAssessment = ''moderate''
                   then ''Consider typhoid testing''
                   else ''Low typhoid risk'') \<rparr>))))))"


text \<open>
  A store for the examples: every patient and every appointment is found, and a created or
  updated diagnosis comes back as the document that was handed in.
\<close>

definition echoStore :: db where
  "echoStore =
     \<lparr> patientFindById = (\<lambda>p. Inr (Obj [(''_id'', p)])),
       appointmentFindById = (\<lambda>a. Inr (Obj [(''_id'', a)])),
       diagnosisCreate = (\<lambda>d. Inr d),
       diagnosisFindByIdAndUpdate = (\<lambda>i u. Inr u) \<rparr>"

section \<open>Vocabulary of the specification\<close>

text \<open>
  An entry of a symptom report is well formed when it carries a string under \<^verbatim>\<open>symptom\<close>;
  that string is its name. Severity, duration and any other field are free.
\<close>

definition wellFormedEntry :: "jsval \<Rightarrow> bool" where
  "wellFormedEntry s = (case getProp s ''symptom'' of Str n \<Rightarrow> True | _ \<Rightarrow> False)"

definition symptomName :: "jsval \<Rightarrow> string" where
  "symptomName s = (case getProp s ''symptom'' of Str n \<Rightarrow> n | _ \<Rightarrow> [])"

text \<open>Whether the name of an entry, lowercased, is in a catalog.\<close>

definition inCatalog :: "string list \<Rightarrow> jsval \<Rightarrow> bool" where
  "inCatalog catalog s = (toLowerCase (symptomName s) \<in> set catalog)"

text \<open>The specification's score: the number of entries whose lowercased name is in the catalog.\<close>

definition matchCount :: "string list \<Rightarrow> jsval list \<Rightarrow> nat" where
  "matchCount catalog xs = length (filter (inCatalog catalog) xs)"

text \<open>A confirmatory test of the disease is reported as the string \<^verbatim>\<open>positive\<close>.\<close>

definition malariaPositive :: "jsval \<Rightarrow> bool" where
  "malariaPositive t =
     (optchain t ''rapidTest'' = Str ''positive'' \<or> optchain t ''microscopy'' = Str ''positive'')"

definition typhoidPositive :: "jsval \<Rightarrow> bool" where
  "typhoidPositive t =
     (optchain t ''widalTest'' = Str ''positive'' \<or> optchain t ''bloodCulture'' = Str ''positive'')"

text \<open>The specification's tier: the first rule that applies, high before moderate before low.\<close>

definition tierOf :: "nat \<Rightarrow> bool \<Rightarrow> string" where
  "tierOf n positive =
     (if n \<ge> 5 \<or> positive then ''high'' else if n \<ge> 3 then ''moderate'' else ''low'')"

text \<open>The specification's recommendation for a disease and a tier.\<close>

definition recommendationFor :: "string \<Rightarrow> string \<Rightarrow> string" where
  "recommendationFor disease tier =
     (if tier = ''high'' then ''Immediate '' @ disease @ '' testing and treatment recommended''
      else if tier = ''moderate'' then ''Consider '' @ disease @ '' testing''
      else ''Low '' @ disease @ '' risk'')"


section \<open>The scorer on well-formed and on ill-formed reports\<close>

lemma includesSymptom_wellFormed:
  "wellFormedEntry s \<Longrightarrow> includesSymptom catalog s = Inr (inCatalog catalog s)"
  by (cases s; cases "getProp s ''symptom''")
     (simp_all add: wellFormedEntry_def includesSymptom_def member_def inCatalog_def
        symptomName_def)

lemma includesSymptom_illFormed:
  "\<not> wellFormedEntry s \<Longrightarrow> includesSymptom catalog s = Inl TypeError"
  by (cases s; cases "getProp s ''symptom''")
     (simp_all add: wellFormedEntry_def includesSymptom_def member_def)

lemma filterE_wellFormed:
  "list_all wellFormedEntry xs \<Longrightarrow>
   filterE (includesSymptom catalog) xs = Inr (filter (inCatalog catalog) xs)"
  by (induction xs) (simp_all add: includesSymptom_wellFormed)

lemma filterE_illFormed:
  "\<not> list_all wellFormedEntry xs \<Longrightarrow> filterE (includesSymptom catalog) xs = Inl TypeError"
proof (induction xs)
  case Nil
  then show ?case by simp
next
  case (Cons x xs)
  show ?case
  proof (cases "wellFormedEntry x")
    case True
    with Cons show ?thesis by (simp add: includesSymptom_wellFormed)
  next
    case False
    then show ?thesis by (simp add: includesSymptom_illFormed)
  qed
qed

lemma assessMalariaRisk_wellFormed:
  "list_all wellFormedEntry xs \<Longrightarrow>
   assessMalariaRisk (Arr xs) t =
     Inr \<lparr> riskLevel = tierOf (matchCount malariaSymptoms xs) (malariaPositive t),
           score = matchCount malariaSymptoms xs \<rparr>"
  by (simp add: assessMalariaRisk_def filterSymptoms_def filterE_wellFormed matchCount_def
        tierOf_def malariaPositive_def Let_def)

lemma assessTyphoidRisk_wellFormed:
  "list_all wellFormedEntry xs \<Longrightarrow>
   assessTyphoidRisk (Arr xs) t =
     Inr \<lparr> riskLevel = tierOf (matchCount typhoidSymptoms xs) (typhoidPositive t),
           score = matchCount typhoidSymptoms xs \<rparr>"
  by (simp add: assessTyphoidRisk_def filterSymptoms_def filterE_wellFormed matchCount_def
        tierOf_def typhoidPositive_def Let_def)

lemma assessMalariaRisk_illFormed:
  "\<not> list_all wellFormedEntry xs \<Longrightarrow> assessMalariaRisk (Arr xs) t = Inl TypeError"
  by (simp add: assessMalariaRisk_def filterSymptoms_def filterE_illFormed)

lemma assessTyphoidRisk_illFormed:
  "\<not> list_all wellFormedEntry xs \<Longrightarrow> assessTyphoidRisk (Arr xs) t = Inl TypeError"
  by (simp add: assessTyphoidRisk_def filterSymptoms_def filterE_illFormed)

section \<open>The assessment endpoint on well-formed and on ill-formed requests\<close>

lemma recommendationFor_malaria:
  "(if tier = ''high'' then ''Immediate malaria testing and treatment recommended''
    else if tier = ''moderate'' then ''Consider malaria testing''
    else ''Low malaria risk'') = recommendationFor ''malaria'' tier"
  by (simp add: recommendationFor_def)

lemma recommendationFor_typhoid:
  "(if tier = ''high'' then ''Immediate typhoid testing and treatment recommended''
    else if tier = ''moderate'' then ''Consider typhoid testing''
    else ''Low typhoid risk'') = recommendationFor ''typhoid'' tier"
  by (simp add: recommendationFor_def)

lemma mapE_member_wellFormed:
  "list_all wellFormedEntry ys \<Longrightarrow>
   mapE (\<lambda>s. member s ''symptom'') ys = Inr (map (\<lambda>s. Str (symptomName s)) ys)"
proof (induction ys)
  case Nil
  then show ?case by simp
next
  case (Cons y ys)
  from Cons.prems have wf: "wellFormedEntry y" by simp
  then have "member y ''symptom'' = Inr (Str (symptomName y))"
    by (cases y; cases "getProp y ''symptom''")
       (simp_all add: wellFormedEntry_def member_def symptomName_def)
  with Cons show ?case by simp
qed

lemma list_all_filter: "list_all P xs \<Longrightarrow> list_all P (filter Q xs)"
  by (induction xs) simp_all

lemma matchingOf_wellFormed:
  "list_all wellFormedEntry xs \<Longrightarrow>
   matchingOf catalog (Arr xs) =
     Inr (map (\<lambda>s. Str (symptomName s)) (filter (inCatalog catalog) xs))"
  by (simp add: matchingOf_def filterSymptoms_def filterE_wellFormed
        mapE_member_wellFormed list_all_filter)

lemma matchingOf_illFormed:
  "\<not> list_all wellFormedEntry xs \<Longrightarrow> matchingOf catalog (Arr xs) = Inl TypeError"
  by (simp add: matchingOf_def filterSymptoms_def filterE_illFormed)

lemma getExpertSystemAssessment_wellFormed:
  assumes "\<not> nullish (body req)"
    and "getProp (body req) ''symptoms'' = Arr xs"
    and "xs \<noteq> []"
    and "list_all wellFormedEntry xs"
  shows "getExpertSystemAssessment req =
           AssessmentOk
             \<lparr> riskLevel = tierOf (matchCount malariaSymptoms xs)
                   (malariaPositive (optchain (getProp (body req) ''testResults'') ''malaria'')),
               score = matchCount malariaSymptoms xs,
               recommendation = recommendationFor ''malaria''
                 (tierOf (matchCount malariaSymptoms xs)
                   (malariaPositive (optchain (getProp (body req) ''testResults'') ''malaria''))),
               matchingSymptoms =
                 map (\<lambda>s. Str (symptomName s)) (filter (inCatalog malariaSymptoms) xs) \<rparr>
             \<lparr> riskLevel = tierOf (matchCount typhoidSymptoms xs)
                   (typhoidPositive (optchain (getProp (body req) ''testResults'') ''typhoid'')),
               score = matchCount typhoidSymptoms xs,
               recommendation = recommendationFor ''typhoid''
                 (tierOf (matchCount typhoidSymptoms xs)
                   (typhoidPositive (optchain (getProp (body req) ''testResults'') ''typhoid''))),
               matchingSymptoms =
                 map (\<lambda>s. Str (symptomName s)) (filter (inCatalog typhoidSymptoms) xs) \<rparr>"
  using assms unfolding getExpertSystemAssessment_def Let_def
    recommendationFor_malaria recommendationFor_typhoid
  by (simp add: assessMalariaRisk_wellFormed assessTyphoidRisk_wellFormed
        matchingOf_wellFormed)

lemma getExpertSystemAssessment_illFormed:
  assumes "\<not> nullish (body req)"
    and "getProp (body req) ''symptoms'' = Arr xs"
    and "\<not> list_all wellFormedEntry xs"
  shows "getExpertSystemAssessment req = Next TypeError"
proof -
  from assms(3) have "xs \<noteq> []" by auto
  with assms show ?thesis
    unfolding getExpertSystemAssessment_def Let_def
    by (simp add: assessMalariaRisk_illFormed)
qed

lemma getExpertSystemAssessment_body:
  "body r1 = body r2 \<Longrightarrow> getExpertSystemAssessment r1 = getExpertSystemAssessment r2"
  by (simp add: getExpertSystemAssessment_def)

lemma getExpertSystemAssessment_rejects:
  assumes "\<not> nullish (body req)"
    and "\<not> isArray (getProp (body req) ''symptoms'') \<or> getProp (body req) ''symptoms'' = Arr []"
  shows "getExpertSystemAssessment req = Failure 400 ''Symptoms array is required'' None"
  using assms unfolding getExpertSystemAssessment_def Let_def by auto

section \<open>What a successful answer tells about the request\<close>

lemma assessMalariaRisk_Inr:
  assumes "assessMalariaRisk symptoms t = Inr a"
  shows "\<exists>xs. symptoms = Arr xs \<and> list_all wellFormedEntry xs
              \<and> a = \<lparr> riskLevel = tierOf (matchCount malariaSymptoms xs) (malariaPositive t),
                       score = matchCount malariaSymptoms xs \<rparr>"
proof (cases symptoms)
  case (Arr xs)
  show ?thesis
  proof (cases "list_all wellFormedEntry xs")
    case True
    with assms Arr show ?thesis by (simp add: assessMalariaRisk_wellFormed)
  next
    case False
    with assms Arr show ?thesis by (simp add: assessMalariaRisk_illFormed)
  qed
qed (use assms in \<open>simp_all add: assessMalariaRisk_def filterSymptoms_def\<close>)

lemma assessTyphoidRisk_Inr:
  assumes "assessTyphoidRisk symptoms t = Inr a"
  shows "\<exists>xs. symptoms = Arr xs \<and> list_all wellFormedEntry xs
              \<and> a = \<lparr> riskLevel = tierOf (matchCount typhoidSymptoms xs) (typhoidPositive t),
                       score = matchCount typhoidSymptoms xs \<rparr>"
proof (cases symptoms)
  case (Arr xs)
  show ?thesis
  proof (cases "list_all wellFormedEntry xs")
    case True
    with assms Arr show ?thesis by (simp add: assessTyphoidRisk_wellFormed)
  next
    case False
    with assms Arr show ?thesis by (simp add: assessTyphoidRisk_illFormed)
  qed
qed (use assms in \<open>simp_all add: assessTyphoidRisk_def filterSymptoms_def\<close>)

lemma tierOf_range: "tierOf n p \<in> {''low'', ''moderate'', ''high''}"
  by (simp add: tierOf_def)

lemma assessMalariaRisk_tier:
  assumes "assessMalariaRisk symptoms t = Inr a"
  shows "riskLevel a \<in> {''low'', ''moderate'', ''high''}"
proof -
  from assessMalariaRisk_Inr [OF assms] obtain xs where
    "a = \<lparr> riskLevel = tierOf (matchCount malariaSymptoms xs) (malariaPositive t),
           score = matchCount malariaSymptoms xs \<rparr>"
    by blast
  then have "riskLevel a = tierOf (matchCount malariaSymptoms xs) (malariaPositive t)"
    by simp
  then show ?thesis by (simp only: tierOf_range)
qed

lemma assessTyphoidRisk_tier:
  assumes "assessTyphoidRisk symptoms t = Inr a"
  shows "riskLevel a \<in> {''low'', ''moderate'', ''high''}"
proof -
  from assessTyphoidRisk_Inr [OF assms] obtain xs where
    "a = \<lparr> riskLevel = tierOf (matchCount typhoidSymptoms xs) (typhoidPositive t),
           score = matchCount typhoidSymptoms xs \<rparr>"
    by blast
  then have "riskLevel a = tierOf (matchCount typhoidSymptoms xs) (typhoidPositive t)"
    by simp
  then show ?thesis by (simp only: tierOf_range)
qed

lemma getExpertSystemAssessment_Ok:
  assumes "getExpertSystemAssessment req = AssessmentOk m t"
  shows "\<not> nullish (body req) \<and>
         (\<exists>xs. getProp (body req) ''symptoms'' = Arr xs \<and> xs \<noteq> [] \<and> list_all wellFormedEntry xs)"
proof -
  have nn: "\<not> nullish (body req)"
    using assms by (auto simp: getExpertSystemAssessment_def)
  have arr: "isArray (getProp (body req) ''symptoms'') \<and> getProp (body req) ''symptoms'' \<noteq> Arr []"
    using assms nn getExpertSystemAssessment_rejects [of req] by auto
  then obtain xs where xs: "getProp (body req) ''symptoms'' = Arr xs" "xs \<noteq> []"
    by (cases "getProp (body req) ''symptoms''") auto
  have "list_all wellFormedEntry xs"
    using assms nn xs getExpertSystemAssessment_illFormed [of req xs] by auto
  with nn xs show ?thesis by blast
qed

lemma createDiagnosis_Created:
  assumes "createDiagnosis store req = DiagnosisCreated d m t"
  shows "\<exists>ma ta.
           assessMalariaRisk (getProp (body req) ''symptoms'')
             (optchain (getProp (body req) ''malariaAssessment'') ''testResults'') = Inr ma
         \<and> assessTyphoidRisk (getProp (body req) ''symptoms'')
             (optchain (getProp (body req) ''typhoidAssessment'') ''testResults'') = Inr ta
         \<and> diagnosisCreate store (diagnosisData req ma ta) = Inr d
         \<and> m = \<lparr> riskLevel = riskLevel ma, score = score ma,
                  recommendation = recommendationFor ''malaria'' (riskLevel ma) \<rparr>
         \<and> t = \<lparr> riskLevel = riskLevel ta, score = score ta,
                  recommendation = recommendationFor ''typhoid'' (riskLevel ta) \<rparr>"
  using assms unfolding createDiagnosis_def Let_def
    recommendationFor_malaria recommendationFor_typhoid
  by (simp split: if_splits sum.splits)

section \<open>Names, order and repetition\<close>

lemma matching_names:
  "map (\<lambda>s. Str (symptomName s)) (filter (inCatalog catalog) xs) =
   map Str (filter (\<lambda>n. toLowerCase n \<in> set catalog) (map symptomName xs))"
  by (induction xs) (simp_all add: inCatalog_def)

lemma matchCount_names:
  "matchCount catalog xs = length (filter (\<lambda>n. toLowerCase n \<in> set catalog) (map symptomName xs))"
  by (induction xs) (simp_all add: matchCount_def inCatalog_def)

lemma mset_list_all: "mset xs = mset ys \<Longrightarrow> list_all P xs = list_all P ys"
  by (auto simp: list_all_iff dest: mset_eq_setD)

lemma mset_matchCount: "mset xs = mset ys \<Longrightarrow> matchCount catalog xs = matchCount catalog ys"
proof -
  assume "mset xs = mset ys"
  then have "mset (filter (inCatalog catalog) xs) = mset (filter (inCatalog catalog) ys)"
    by simp
  then have "length (filter (inCatalog catalog) xs) = length (filter (inCatalog catalog) ys)"
    by (rule mset_eq_length)
  then show ?thesis by (simp only: matchCount_def)
qed

lemma matchCount_replicate:
  "inCatalog catalog s \<Longrightarrow> matchCount catalog (replicate n s @ xs) = n + matchCount catalog xs"
  by (induction n) (simp_all add: matchCount_def)

section \<open>The document handed to the store\<close>




section \<open>The claims\<close>

subsection \<open>C1: the score is the number of catalog matches\<close>

text \<open>
  C1, as stated: the score of a disease is the number of report entries whose lowercased
  name is in the disease's catalog, and a report without catalog matches has score 0 and
  tier low. The second half fails when a confirmatory test of the disease is positive:
  the report below has no malaria match, and is assessed high.
\<close>

theorem report_without_matches_counterexample:
  "list_all wellFormedEntry [Obj [(''symptom'', Str ''alien itch'')]]
   \<and> matchCount malariaSymptoms [Obj [(''symptom'', Str ''alien itch'')]] = 0
   \<and> assessMalariaRisk (Arr [Obj [(''symptom'', Str ''alien itch'')]])
         (Obj [(''rapidTest'', Str ''positive'')])
       = Inr \<lparr> riskLevel = ''high'', score = 0 \<rparr>"
  by code_simp

text \<open>
  C1, amended: for every report of well-formed entries and either disease, with any lab
  results, the scorer returns, its score is the number of entries whose lowercased name is
  in the disease's catalog (the two catalogs being the eleven names each that the claim
  lists), and a report without catalog matches has score 0 and, unless a confirmatory test
  of that disease is positive, tier low.
\<close>

theorem score_is_match_count:
  assumes "list_all wellFormedEntry xs"
  shows "(\<exists>a. assessMalariaRisk (Arr xs) tm = Inr a
              \<and> score a = matchCount malariaSymptoms xs
              \<and> (matchCount malariaSymptoms xs = 0 \<and> \<not> malariaPositive tm
                   \<longrightarrow> score a = 0 \<and> riskLevel a = ''low''))
       \<and> (\<exists>a. assessTyphoidRisk (Arr xs) tt = Inr a
              \<and> score a = matchCount typhoidSymptoms xs
              \<and> (matchCount typhoidSymptoms xs = 0 \<and> \<not> typhoidPositive tt
                   \<longrightarrow> score a = 0 \<and> riskLevel a = ''low''))
       \<and> set malariaSymptoms =
            {''fever'', ''chills'', ''headache'', ''muscle aches'', ''fatigue'', ''nausea'',
             ''vomiting'', ''diarrhea'', ''abdominal pain'', ''sweating'', ''shivering''}
       \<and> set typhoidSymptoms =
            {''fever'', ''headache'', ''weakness'', ''stomach pain'', ''constipation'',
             ''diarrhea'', ''loss of appetite'', ''rash'', ''enlarged spleen'', ''rose spots'',
             ''dry cough''}"
proof -
  have m: "\<exists>a. assessMalariaRisk (Arr xs) tm = Inr a
              \<and> score a = matchCount malariaSymptoms xs
              \<and> (matchCount malariaSymptoms xs = 0 \<and> \<not> malariaPositive tm
                   \<longrightarrow> score a = 0 \<and> riskLevel a = ''low'')"
    using assms by (simp add: assessMalariaRisk_wellFormed tierOf_def)
  have t: "\<exists>a. assessTyphoidRisk (Arr xs) tt = Inr a
              \<and> score a = matchCount typhoidSymptoms xs
              \<and> (matchCount typhoidSymptoms xs = 0 \<and> \<not> typhoidPositive tt
                   \<longrightarrow> score a = 0 \<and> riskLevel a = ''low'')"
    using assms by (simp add: assessTyphoidRisk_wellFormed tierOf_def)
  have cm: "set malariaSymptoms =
            {''fever'', ''chills'', ''headache'', ''muscle aches'', ''fatigue'', ''nausea'',
             ''vomiting'', ''diarrhea'', ''abdominal pain'', ''sweating'', ''shivering''}"
    unfolding malariaSymptoms_def by (simp only: list.set)
  have ct: "set typhoidSymptoms =
            {''fever'', ''headache'', ''weakness'', ''stomach pain'', ''constipation'',
             ''diarrhea'', ''loss of appetite'', ''rash'', ''enlarged spleen'', ''rose spots'',
             ''dry cough''}"
    unfolding typhoidSymptoms_def by (simp only: list.set)
  show ?thesis by (intro conjI m t cm ct)
qed

theorem score_is_match_count_witness:
  "list_all wellFormedEntry [Obj [(''symptom'', Str ''alien itch'')]]
   \<and> matchCount malariaSymptoms [Obj [(''symptom'', Str ''alien itch'')]] = 0
   \<and> \<not> malariaPositive (Obj [(''rapidTest'', Str ''negative'')])
   \<and> (\<exists>a. assessMalariaRisk (Arr [Obj [(''symptom'', Str ''alien itch'')]])
             (Obj [(''rapidTest'', Str ''negative'')]) = Inr a
           \<and> score a = 0 \<and> riskLevel a = ''low'')"
proof -
  let ?xs = "[Obj [(''symptom'', Str ''alien itch'')]]"
  let ?t = "Obj [(''rapidTest'', Str ''negative'')]"
  have wf: "list_all wellFormedEntry ?xs"
    by code_simp
  have cm: "matchCount malariaSymptoms ?xs = 0"
    by code_simp
  have np: "\<not> malariaPositive ?t"
    by code_simp
  note r = score_is_match_count [OF wf, of ?t Undefined]
  from r cm np have "\<exists>a. assessMalariaRisk (Arr ?xs) ?t = Inr a \<and> score a = 0 \<and> riskLevel a = ''low''"
    by blast
  with wf cm np show ?thesis by (intro conjI)
qed

subsection \<open>C2: the tier, first rule first\<close>



subsection \<open>C3: a request without a non-empty array of symptoms\<close>

text \<open>
  C3: the body parser hands the handler a body. When the \<^verbatim>\<open>symptoms\<close> of the body are
  missing, no array or the empty array, the assessment endpoint answers 400 with the error
  \<^verbatim>\<open>Symptoms array is required\<close> and no data; when they are a non-empty array of well-formed
  entries it answers with both assessments.
\<close>

theorem symptoms_required:
  assumes "\<not> nullish (body req)"
  shows "(getProp (body req) ''symptoms'' = Undefined
            \<or> \<not> isArray (getProp (body req) ''symptoms'')
            \<or> getProp (body req) ''symptoms'' = Arr []
          \<longrightarrow> getExpertSystemAssessment req = Failure 400 ''Symptoms array is required'' None)
       \<and> (\<forall>xs. getProp (body req) ''symptoms'' = Arr xs \<and> xs \<noteq> []
                  \<and> list_all wellFormedEntry xs
              \<longrightarrow> (\<exists>m t. getExpertSystemAssessment req = AssessmentOk m t
                         \<and> score m = matchCount malariaSymptoms xs
                         \<and> score t = matchCount typhoidSymptoms xs))"
proof (intro conjI impI allI)
  assume "getProp (body req) ''symptoms'' = Undefined
            \<or> \<not> isArray (getProp (body req) ''symptoms'')
            \<or> getProp (body req) ''symptoms'' = Arr []"
  then have "\<not> isArray (getProp (body req) ''symptoms'') \<or> getProp (body req) ''symptoms'' = Arr []"
    by auto
  with assms show "getExpertSystemAssessment req = Failure 400 ''Symptoms array is required'' None"
    by (rule getExpertSystemAssessment_rejects)
next
  fix xs
  assume "getProp (body req) ''symptoms'' = Arr xs \<and> xs \<noteq> [] \<and> list_all wellFormedEntry xs"
  then have "getProp (body req) ''symptoms'' = Arr xs" "xs \<noteq> []" "list_all wellFormedEntry xs"
    by simp_all
  from getExpertSystemAssessment_wellFormed [OF assms this]
  show "\<exists>m t. getExpertSystemAssessment req = AssessmentOk m t
              \<and> score m = matchCount malariaSymptoms xs
              \<and> score t = matchCount typhoidSymptoms xs"
    by simp
qed

theorem symptoms_required_witness:
  "getExpertSystemAssessment
     \<lparr> body = Obj [(''testResults'', Obj [(''malaria'', Obj [(''rapidTest'', Str ''positive'')])])],
       validationErrors = [], userId = Str ''u1'', paramsId = Undefined \<rparr>
     = Failure 400 ''Symptoms array is required'' None
   \<and> getExpertSystemAssessment
     \<lparr> body = Obj [(''symptoms'', Str ''fever'')],
       validationErrors = [], userId = Str ''u1'', paramsId = Undefined \<rparr>
     = Failure 400 ''Symptoms array is required'' None
   \<and> getExpertSystemAssessment
     \<lparr> body = Obj [(''symptoms'', Arr [])],
       validationErrors = [], userId = Str ''u1'', paramsId = Undefined \<rparr>
     = Failure 400 ''Symptoms array is required'' None
   \<and> (\<exists>m t. getExpertSystemAssessment
     \<lparr> body = Obj [(''symptoms'', Arr [Obj [(''symptom'', Str ''fever'')]])],
       validationErrors = [], userId = Str ''u1'', paramsId = Undefined \<rparr>
     = AssessmentOk m t \<and> score m = 1 \<and> score t = 1)"
proof -
  let ?r1 = "\<lparr> body = Obj [(''testResults'', Obj [(''malaria'', Obj [(''rapidTest'', Str ''positive'')])])],
       validationErrors = [], userId = Str ''u1'', paramsId = Undefined \<rparr>"
  let ?r2 = "\<lparr> body = Obj [(''symptoms'', Str ''fever'')],
       validationErrors = [], userId = Str ''u1'', paramsId = Undefined \<rparr>"
  let ?r3 = "\<lparr> body = Obj [(''symptoms'', Arr [])],
       validationErrors = [], userId = Str ''u1'', paramsId = Undefined \<rparr>"
  let ?xs = "[Obj [(''symptom'', Str ''fever'')]]"
  let ?r4 = "\<lparr> body = Obj [(''symptoms'', Arr ?xs)],
       validationErrors = [], userId = Str ''u1'', paramsId = Undefined \<rparr>"
  have 1: "getExpertSystemAssessment ?r1 = Failure 400 ''Symptoms array is required'' None"
    using symptoms_required [of ?r1] by simp
  have 2: "getExpertSystemAssessment ?r2 = Failure 400 ''Symptoms array is required'' None"
    using symptoms_required [of ?r2] by simp
  have 3: "getExpertSystemAssessment ?r3 = Failure 400 ''Symptoms array is required'' None"
    using symptoms_required [of ?r3] by simp
  have wf: "list_all wellFormedEntry ?xs" by code_simp
  have cm: "matchCount malariaSymptoms ?xs = 1" by code_simp
  have ct: "matchCount typhoidSymptoms ?xs = 1" by code_simp
  have "\<exists>m t. getExpertSystemAssessment ?r4 = AssessmentOk m t
           \<and> score m = matchCount malariaSymptoms ?xs \<and> score t = matchCount typhoidSymptoms ?xs"
    using symptoms_required [of ?r4] wf by simp
  then have 4: "\<exists>m t. getExpertSystemAssessment ?r4 = AssessmentOk m t \<and> score m = 1 \<and> score t = 1"
    unfolding cm ct .
  from 1 2 3 4 show ?thesis by (intro conjI)
qed

subsection \<open>C4: the recommendation follows the tier\<close>

text \<open>
  C4: in every answer of the assessment endpoint and of diagnosis creation, the tier of
  each disease is low, moderate or high and the recommendation is the specification's text
  for that disease and tier, so it depends on nothing but the tier.
\<close>

theorem recommendation_by_tier:
  "(getExpertSystemAssessment req = AssessmentOk m t \<longrightarrow>
      riskLevel m \<in> {''low'', ''moderate'', ''high''}
      \<and> riskLevel t \<in> {''low'', ''moderate'', ''high''}
      \<and> recommendation m = recommendationFor ''malaria'' (riskLevel m)
      \<and> recommendation t = recommendationFor ''typhoid'' (riskLevel t))
   \<and> (createDiagnosis store req' = DiagnosisCreated d m' t' \<longrightarrow>
      riskLevel m' \<in> {''low'', ''moderate'', ''high''}
      \<and> riskLevel t' \<in> {''low'', ''moderate'', ''high''}
      \<and> recommendation m' = recommendationFor ''malaria'' (riskLevel m')
      \<and> recommendation t' = recommendationFor ''typhoid'' (riskLevel t'))
   \<and> recommendationFor ''malaria'' ''high'' = ''Immediate malaria testing and treatment recommended''
   \<and> recommendationFor ''malaria'' ''moderate'' = ''Consider malaria testing''
   \<and> recommendationFor ''malaria'' ''low'' = ''Low malaria risk''
   \<and> recommendationFor ''typhoid'' ''high'' = ''Immediate typhoid testing and treatment recommended''
   \<and> recommendationFor ''typhoid'' ''moderate'' = ''Consider typhoid testing''
   \<and> recommendationFor ''typhoid'' ''low'' = ''Low typhoid risk''"
proof -
  have a: "riskLevel m \<in> {''low'', ''moderate'', ''high''}
      \<and> riskLevel t \<in> {''low'', ''moderate'', ''high''}
      \<and> recommendation m = recommendationFor ''malaria'' (riskLevel m)
      \<and> recommendation t = recommendationFor ''typhoid'' (riskLevel t)"
    if ok: "getExpertSystemAssessment req = AssessmentOk m t"
  proof -
    from getExpertSystemAssessment_Ok [OF ok] obtain xs where
      nn: "\<not> nullish (body req)" and xs: "getProp (body req) ''symptoms'' = Arr xs"
      and ne: "xs \<noteq> []" and wf: "list_all wellFormedEntry xs"
      by blast
    from getExpertSystemAssessment_wellFormed [OF nn xs ne wf] ok
    have m: "riskLevel m = tierOf (matchCount malariaSymptoms xs)
                   (malariaPositive (optchain (getProp (body req) ''testResults'') ''malaria''))"
      and t: "riskLevel t = tierOf (matchCount typhoidSymptoms xs)
                   (typhoidPositive (optchain (getProp (body req) ''testResults'') ''typhoid''))"
      and rm: "recommendation m = recommendationFor ''malaria'' (riskLevel m)"
      and rt: "recommendation t = recommendationFor ''typhoid'' (riskLevel t)"
      by auto
    from m have "riskLevel m \<in> {''low'', ''moderate'', ''high''}"
      by (simp only: tierOf_range)
    moreover from t have "riskLevel t \<in> {''low'', ''moderate'', ''high''}"
      by (simp only: tierOf_range)
    ultimately show ?thesis using rm rt by (intro conjI)
  qed
  have b: "riskLevel m' \<in> {''low'', ''moderate'', ''high''}
      \<and> riskLevel t' \<in> {''low'', ''moderate'', ''high''}
      \<and> recommendation m' = recommendationFor ''malaria'' (riskLevel m')
      \<and> recommendation t' = recommendationFor ''typhoid'' (riskLevel t')"
    if cr: "createDiagnosis store req' = DiagnosisCreated d m' t'"
  proof -
    from createDiagnosis_Created [OF cr] obtain ma ta where
      ma: "assessMalariaRisk (getProp (body req') ''symptoms'')
             (optchain (getProp (body req') ''malariaAssessment'') ''testResults'') = Inr ma"
      and ta: "assessTyphoidRisk (getProp (body req') ''symptoms'')
             (optchain (getProp (body req') ''typhoidAssessment'') ''testResults'') = Inr ta"
      and m': "m' = \<lparr> riskLevel = riskLevel ma, score = score ma,
                  recommendation = recommendationFor ''malaria'' (riskLevel ma) \<rparr>"
      and t': "t' = \<lparr> riskLevel = riskLevel ta, score = score ta,
                  recommendation = recommendationFor ''typhoid'' (riskLevel ta) \<rparr>"
      by blast
    from assessMalariaRisk_tier [OF ma] assessTyphoidRisk_tier [OF ta] m' t'
    show ?thesis by simp
  qed
  have c: "recommendationFor ''malaria'' ''high'' = ''Immediate malaria testing and treatment recommended''"
    "recommendationFor ''malaria'' ''moderate'' = ''Consider malaria testing''"
    "recommendationFor ''malaria'' ''low'' = ''Low malaria risk''"
    "recommendationFor ''typhoid'' ''high'' = ''Immediate typhoid testing and treatment recommended''"
    "recommendationFor ''typhoid'' ''moderate'' = ''Consider typhoid testing''"
    "recommendationFor ''typhoid'' ''low'' = ''Low typhoid risk''"
    by (simp_all add: recommendationFor_def)
  have A: "getExpertSystemAssessment req = AssessmentOk m t \<longrightarrow>
      riskLevel m \<in> {''low'', ''moderate'', ''high''}
      \<and> riskLevel t \<in> {''low'', ''moderate'', ''high''}
      \<and> recommendation m = recommendationFor ''malaria'' (riskLevel m)
      \<and> recommendation t = recommendationFor ''typhoid'' (riskLevel t)"
    by (rule impI) (rule a)
  have B: "createDiagnosis store req' = DiagnosisCreated d m' t' \<longrightarrow>
      riskLevel m' \<in> {''low'', ''moderate'', ''high''}
      \<and> riskLevel t' \<in> {''low'', ''moderate'', ''high''}
      \<and> recommendation m' = recommendationFor ''malaria'' (riskLevel m')
      \<and> recommendation t' = recommendationFor ''typhoid'' (riskLevel t')"
    by (rule impI) (rule b)
  from A B c show ?thesis by (intro conjI)
qed

theorem recommendation_by_tier_witness:
  "getExpertSystemAssessment
     \<lparr> body = Obj [(''symptoms'', Arr [Obj [(''symptom'', Str ''fever'')], Obj [(''symptom'', Str ''chills'')],
                                      Obj [(''symptom'', Str ''nausea'')]])],
       validationErrors = [], userId = Str ''u1'', paramsId = Undefined \<rparr>
     = AssessmentOk
         \<lparr> riskLevel = ''moderate'', score = 3, recommendation = ''Consider malaria testing'',
           matchingSymptoms = [Str ''fever'', Str ''chills'', Str ''nausea''] \<rparr>
         \<lparr> riskLevel = ''low'', score = 1, recommendation = ''Low typhoid risk'',
           matchingSymptoms = [Str ''fever''] \<rparr>
   \<and> createDiagnosis echoStore
     \<lparr> body = Obj [(''symptoms'', Arr [Obj [(''symptom'', Str ''rash'')]]),
                   (''typhoidAssessment'', Obj [(''testResults'', Obj [(''widalTest'', Str ''positive'')])])],
       validationErrors = [], userId = Str ''u1'', paramsId = Undefined \<rparr>
     = DiagnosisCreated
         (Obj [(''symptoms'', Arr [Obj [(''symptom'', Str ''rash'')]]),
               (''typhoidAssessment'', Obj [(''testResults'', Obj [(''widalTest'', Str ''positive'')]),
                                            (''riskLevel'', Str ''high'')]),
               (''doctor'', Str ''u1''),
               (''malariaAssessment'', Obj [(''riskLevel'', Str ''low'')])])
         \<lparr> riskLevel = ''low'', score = 0, recommendation = ''Low malaria risk'' \<rparr>
         \<lparr> riskLevel = ''high'', score = 1,
           recommendation = ''Immediate typhoid testing and treatment recommended'' \<rparr>
   \<and> recommendationFor ''malaria'' ''moderate'' = ''Consider malaria testing''
   \<and> recommendationFor ''typhoid'' ''low'' = ''Low typhoid risk''
   \<and> recommendationFor ''malaria'' ''low'' = ''Low malaria risk''
   \<and> recommendationFor ''typhoid'' ''high'' = ''Immediate typhoid testing and treatment recommended''"
proof -
  let ?req = "\<lparr> body = Obj [(''symptoms'', Arr [Obj [(''symptom'', Str ''fever'')], Obj [(''symptom'', Str ''chills'')],
                                      Obj [(''symptom'', Str ''nausea'')]])],
       validationErrors = [], userId = Str ''u1'', paramsId = Undefined \<rparr>"
  let ?m = "\<lparr> riskLevel = ''moderate'', score = 3, recommendation = ''Consider malaria testing'',
           matchingSymptoms = [Str ''fever'', Str ''chills'', Str ''nausea''] \<rparr>"
  let ?t = "\<lparr> riskLevel = ''low'', score = 1, recommendation = ''Low typhoid risk'',
           matchingSymptoms = [Str ''fever''] \<rparr>"
  let ?req' = "\<lparr> body = Obj [(''symptoms'', Arr [Obj [(''symptom'', Str ''rash'')]]),
                   (''typhoidAssessment'', Obj [(''testResults'', Obj [(''widalTest'', Str ''positive'')])])],
       validationErrors = [], userId = Str ''u1'', paramsId = Undefined \<rparr>"
  let ?d = "Obj [(''symptoms'', Arr [Obj [(''symptom'', Str ''rash'')]]),
               (''typhoidAssessment'', Obj [(''testResults'', Obj [(''widalTest'', Str ''positive'')]),
                                            (''riskLevel'', Str ''high'')]),
               (''doctor'', Str ''u1''),
               (''malariaAssessment'', Obj [(''riskLevel'', Str ''low'')])]"
  let ?m' = "\<lparr> riskLevel = ''low'', score = 0, recommendation = ''Low malaria risk'' \<rparr>"
  let ?t' = "\<lparr> riskLevel = ''high'', score = 1,
           recommendation = ''Immediate typhoid testing and treatment recommended'' \<rparr>"
  have ev: "getExpertSystemAssessment ?req = AssessmentOk ?m ?t"
    by code_simp
  have ev': "createDiagnosis echoStore ?req' = DiagnosisCreated ?d ?m' ?t'"
    by code_simp
  note r = recommendation_by_tier [where req = ?req and m = ?m and t = ?t
      and store = echoStore and req' = ?req' and d = ?d and m' = ?m' and t' = ?t']
  from r ev have "recommendation ?m = recommendationFor ''malaria'' (riskLevel ?m)"
    and "recommendation ?t = recommendationFor ''typhoid'' (riskLevel ?t)"
    by blast+
  then have 1: "recommendationFor ''malaria'' ''moderate'' = ''Consider malaria testing''"
    and 2: "recommendationFor ''typhoid'' ''low'' = ''Low typhoid risk''"
    by simp_all
  from r ev' have "recommendation ?m' = recommendationFor ''malaria'' (riskLevel ?m')"
    and "recommendation ?t' = recommendationFor ''typhoid'' (riskLevel ?t')"
    by blast+
  then have 3: "recommendationFor ''malaria'' ''low'' = ''Low malaria risk''"
    and 4: "recommendationFor ''typhoid'' ''high'' = ''Immediate typhoid testing and treatment recommended''"
    by simp_all
  from ev ev' 1 2 3 4 show ?thesis by (intro conjI)
qed

subsection \<open>C5: the matching symptoms\<close>



subsection \<open>C6: entries the validation chain objects to\<close>

text \<open>
  C6 asks that an entry with an empty or missing name, or with a severity outside mild,
  moderate and severe, be rejected with a validation error. The route declares such a
  chain for the assessment endpoint, but its handler never reads the chain's result:
  whatever errors the chain has put on the request, an entry of severity \<^verbatim>\<open>extreme\<close> and one
  with the empty name are assessed, and an entry without a name ends in a \<open>TypeError\<close>.
  Diagnosis creation reads the result and answers the same request with 400.
\<close>

theorem validation_result_is_not_read:
  "getExpertSystemAssessment
     \<lparr> body = Obj [(''symptoms'',
          Arr [Obj [(''symptom'', Str ''fever''), (''severity'', Str ''extreme'')],
               Obj [(''symptom'', Str '''')]])],
       validationErrors = errs, userId = u, paramsId = p \<rparr>
     = AssessmentOk
         \<lparr> riskLevel = ''low'', score = 1, recommendation = ''Low malaria risk'',
           matchingSymptoms = [Str ''fever''] \<rparr>
         \<lparr> riskLevel = ''low'', score = 1, recommendation = ''Low typhoid risk'',
           matchingSymptoms = [Str ''fever''] \<rparr>
   \<and> getExpertSystemAssessment
     \<lparr> body = Obj [(''symptoms'', Arr [Obj [(''severity'', Str ''mild'')]])],
       validationErrors = errs, userId = u, paramsId = p \<rparr>
     = Next TypeError
   \<and> (errs \<noteq> [] \<longrightarrow>
        createDiagnosis store
          \<lparr> body = Obj [(''symptoms'',
               Arr [Obj [(''symptom'', Str ''fever''), (''severity'', Str ''extreme'')],
                    Obj [(''symptom'', Str '''')]])],
            validationErrors = errs, userId = u, paramsId = p \<rparr>
          = Failure 400 ''Validation failed'' (Some errs))"
proof (intro conjI impI)
  let ?b1 = "Obj [(''symptoms'',
          Arr [Obj [(''symptom'', Str ''fever''), (''severity'', Str ''extreme'')],
               Obj [(''symptom'', Str '''')]])]"
  let ?b2 = "Obj [(''symptoms'', Arr [Obj [(''severity'', Str ''mild'')]])]"
  have e1: "getExpertSystemAssessment
       \<lparr> body = ?b1, validationErrors = [], userId = Undefined, paramsId = Undefined \<rparr>
     = AssessmentOk
         \<lparr> riskLevel = ''low'', score = 1, recommendation = ''Low malaria risk'',
           matchingSymptoms = [Str ''fever''] \<rparr>
         \<lparr> riskLevel = ''low'', score = 1, recommendation = ''Low typhoid risk'',
           matchingSymptoms = [Str ''fever''] \<rparr>"
    by code_simp
  have e2: "getExpertSystemAssessment
       \<lparr> body = ?b2, validationErrors = [], userId = Undefined, paramsId = Undefined \<rparr>
     = Next TypeError"
    by code_simp
  show "getExpertSystemAssessment
     \<lparr> body = ?b1, validationErrors = errs, userId = u, paramsId = p \<rparr>
     = AssessmentOk
         \<lparr> riskLevel = ''low'', score = 1, recommendation = ''Low malaria risk'',
           matchingSymptoms = [Str ''fever''] \<rparr>
         \<lparr> riskLevel = ''low'', score = 1, recommendation = ''Low typhoid risk'',
           matchingSymptoms = [Str ''fever''] \<rparr>"
    unfolding e1 [symmetric] by (rule getExpertSystemAssessment_body) simp
  show "getExpertSystemAssessment
     \<lparr> body = ?b2, validationErrors = errs, userId = u, paramsId = p \<rparr> = Next TypeError"
    unfolding e2 [symmetric] by (rule getExpertSystemAssessment_body) simp
next
  assume "errs \<noteq> []"
  then show "createDiagnosis store
          \<lparr> body = Obj [(''symptoms'',
               Arr [Obj [(''symptom'', Str ''fever''), (''severity'', Str ''extreme'')],
                    Obj [(''symptom'', Str '''')]])],
            validationErrors = errs, userId = u, paramsId = p \<rparr>
          = Failure 400 ''Validation failed'' (Some errs)"
    by (simp add: createDiagnosis_def)
qed

theorem validation_result_is_not_read_witness:
  "[Obj [(''msg'', Str ''Severity must be mild, moderate, or severe'')]] \<noteq> []
   \<and> getExpertSystemAssessment
     \<lparr> body = Obj [(''symptoms'',
          Arr [Obj [(''symptom'', Str ''fever''), (''severity'', Str ''extreme'')],
               Obj [(''symptom'', Str '''')]])],
       validationErrors = [Obj [(''msg'', Str ''Severity must be mild, moderate, or severe'')]],
       userId = Str ''u1'', paramsId = Undefined \<rparr>
     = AssessmentOk
         \<lparr> riskLevel = ''low'', score = 1, recommendation = ''Low malaria risk'',
           matchingSymptoms = [Str ''fever''] \<rparr>
         \<lparr> riskLevel = ''low'', score = 1, recommendation = ''Low typhoid risk'',
           matchingSymptoms = [Str ''fever''] \<rparr>
   \<and> createDiagnosis echoStore
     \<lparr> body = Obj [(''symptoms'',
          Arr [Obj [(''symptom'', Str ''fever''), (''severity'', Str ''extreme'')],
               Obj [(''symptom'', Str '''')]])],
       validationErrors = [Obj [(''msg'', Str ''Severity must be mild, moderate, or severe'')]],
       userId = Str ''u1'', paramsId = Undefined \<rparr>
     = Failure 400 ''Validation failed''
         (Some [Obj [(''msg'', Str ''Severity must be mild, moderate, or severe'')]])"
proof -
  let ?errs = "[Obj [(''msg'', Str ''Severity must be mild, moderate, or severe'')]]"
  have ne: "?errs \<noteq> []" by simp
  note r = validation_result_is_not_read [where errs = ?errs and u = "Str ''u1''"
      and p = Undefined and store = echoStore]
  from r have 1: "getExpertSystemAssessment
     \<lparr> body = Obj [(''symptoms'',
          Arr [Obj [(''symptom'', Str ''fever''), (''severity'', Str ''extreme'')],
               Obj [(''symptom'', Str '''')]])],
       validationErrors = ?errs, userId = Str ''u1'', paramsId = Undefined \<rparr>
     = AssessmentOk
         \<lparr> riskLevel = ''low'', score = 1, recommendation = ''Low malaria risk'',
           matchingSymptoms = [Str ''fever''] \<rparr>
         \<lparr> riskLevel = ''low'', score = 1, recommendation = ''Low typhoid risk'',
           matchingSymptoms = [Str ''fever''] \<rparr>"
    by (rule conjunct1)
  from r ne have 2: "createDiagnosis echoStore
     \<lparr> body = Obj [(''symptoms'',
          Arr [Obj [(''symptom'', Str ''fever''), (''severity'', Str ''extreme'')],
               Obj [(''symptom'', Str '''')]])],
       validationErrors = ?errs, userId = Str ''u1'', paramsId = Undefined \<rparr>
     = Failure 400 ''Validation failed'' (Some ?errs)"
    by blast
  from ne 1 2 show ?thesis by (intro conjI)
qed

subsection \<open>C7: what the result of a disease depends on\<close>

text \<open>
  C7: two requests with well-formed entries that agree on the sequence of symptom names
  are both answered, and the results of a disease are equal whenever the requests agree on
  the lab results of that disease; severity, duration, any other field of an entry and the
  other disease's lab results have no influence.
\<close>

theorem result_depends_on_names_and_own_labs:
  assumes "\<not> nullish (body r1)" and "\<not> nullish (body r2)"
    and "getProp (body r1) ''symptoms'' = Arr xs"
    and "getProp (body r2) ''symptoms'' = Arr ys"
    and "xs \<noteq> []"
    and "list_all wellFormedEntry xs" and "list_all wellFormedEntry ys"
    and "map symptomName xs = map symptomName ys"
  shows "\<exists>m1 t1 m2 t2.
           getExpertSystemAssessment r1 = AssessmentOk m1 t1
         \<and> getExpertSystemAssessment r2 = AssessmentOk m2 t2
         \<and> (optchain (getProp (body r1) ''testResults'') ''malaria''
              = optchain (getProp (body r2) ''testResults'') ''malaria'' \<longrightarrow> m1 = m2)
         \<and> (optchain (getProp (body r1) ''testResults'') ''typhoid''
              = optchain (getProp (body r2) ''testResults'') ''typhoid'' \<longrightarrow> t1 = t2)"
proof -
  from assms(5,8) have ne: "ys \<noteq> []" by auto
  have c: "matchCount catalog xs = matchCount catalog ys" for catalog
    by (simp add: matchCount_names assms(8))
  have f: "map (\<lambda>s. Str (symptomName s)) (filter (inCatalog catalog) xs)
         = map (\<lambda>s. Str (symptomName s)) (filter (inCatalog catalog) ys)" for catalog
    by (simp add: matching_names assms(8))
  show ?thesis
    unfolding getExpertSystemAssessment_wellFormed [OF assms(1,3,5,6)]
      getExpertSystemAssessment_wellFormed [OF assms(2,4) ne assms(7)] c f
    by simp
qed

theorem result_depends_on_names_and_own_labs_witness:
  "\<exists>m1 t1 m2 t2.
     getExpertSystemAssessment
       \<lparr> body = Obj [(''symptoms'',
            Arr [Obj [(''symptom'', Str ''Fever''), (''severity'', Str ''mild'')],
                 Obj [(''symptom'', Str ''rash'')]]),
           (''testResults'', Obj [(''malaria'', Obj [(''rapidTest'', Str ''negative'')]),
                                  (''typhoid'', Obj [(''widalTest'', Str ''positive'')])])],
         validationErrors = [], userId = Str ''u1'', paramsId = Undefined \<rparr>
       = AssessmentOk m1 t1
   \<and> getExpertSystemAssessment
       \<lparr> body = Obj [(''symptoms'',
            Arr [Obj [(''symptom'', Str ''Fever''), (''severity'', Str ''severe''),
                      (''duration'', Str ''3 days'')],
                 Obj [(''duration'', Str ''1 week''), (''symptom'', Str ''rash'')]]),
           (''testResults'', Obj [(''malaria'', Obj [(''rapidTest'', Str ''negative'')])])],
         validationErrors = [], userId = Str ''u2'', paramsId = Undefined \<rparr>
       = AssessmentOk m2 t2
   \<and> m1 = m2 \<and> riskLevel t1 = ''high'' \<and> riskLevel t2 = ''low''"
proof -
  let ?xs = "[Obj [(''symptom'', Str ''Fever''), (''severity'', Str ''mild'')],
                 Obj [(''symptom'', Str ''rash'')]]"
  let ?ys = "[Obj [(''symptom'', Str ''Fever''), (''severity'', Str ''severe''),
                      (''duration'', Str ''3 days'')],
                 Obj [(''duration'', Str ''1 week''), (''symptom'', Str ''rash'')]]"
  let ?r1 = "\<lparr> body = Obj [(''symptoms'', Arr ?xs),
           (''testResults'', Obj [(''malaria'', Obj [(''rapidTest'', Str ''negative'')]),
                                  (''typhoid'', Obj [(''widalTest'', Str ''positive'')])])],
         validationErrors = [], userId = Str ''u1'', paramsId = Undefined \<rparr>"
  let ?r2 = "\<lparr> body = Obj [(''symptoms'', Arr ?ys),
           (''testResults'', Obj [(''malaria'', Obj [(''rapidTest'', Str ''negative'')])])],
         validationErrors = [], userId = Str ''u2'', paramsId = Undefined \<rparr>"
  have h: "\<not> nullish (body ?r1)" "\<not> nullish (body ?r2)"
    "getProp (body ?r1) ''symptoms'' = Arr ?xs" "getProp (body ?r2) ''symptoms'' = Arr ?ys"
    "?xs \<noteq> []"
    by simp_all
  have wf: "list_all wellFormedEntry ?xs" "list_all wellFormedEntry ?ys"
    by code_simp+
  have names: "map symptomName ?xs = map symptomName ?ys"
    by code_simp
  have labs: "optchain (getProp (body ?r1) ''testResults'') ''malaria''
              = optchain (getProp (body ?r2) ''testResults'') ''malaria''"
    by code_simp
  from result_depends_on_names_and_own_labs [OF h wf names] labs
  obtain m1 t1 m2 t2 where
    r1: "getExpertSystemAssessment ?r1 = AssessmentOk m1 t1"
    and r2: "getExpertSystemAssessment ?r2 = AssessmentOk m2 t2"
    and eq: "m1 = m2"
    by blast
  have e1: "getExpertSystemAssessment ?r1 = AssessmentOk
         \<lparr> riskLevel = ''low'', score = 1, recommendation = ''Low malaria risk'',
           matchingSymptoms = [Str ''Fever''] \<rparr>
         \<lparr> riskLevel = ''high'', score = 2,
           recommendation = ''Immediate typhoid testing and treatment recommended'',
           matchingSymptoms = [Str ''Fever'', Str ''rash''] \<rparr>"
    by code_simp
  have e2: "getExpertSystemAssessment ?r2 = AssessmentOk
         \<lparr> riskLevel = ''low'', score = 1, recommendation = ''Low malaria risk'',
           matchingSymptoms = [Str ''Fever''] \<rparr>
         \<lparr> riskLevel = ''low'', score = 2, recommendation = ''Low typhoid risk'',
           matchingSymptoms = [Str ''Fever'', Str ''rash''] \<rparr>"
    by code_simp
  from r1 e1 have "t1 = \<lparr> riskLevel = ''high'', score = 2,
           recommendation = ''Immediate typhoid testing and treatment recommended'',
           matchingSymptoms = [Str ''Fever'', Str ''rash''] \<rparr>"
    by simp
  then have t1: "riskLevel t1 = ''high''" by simp
  from r2 e2 have "t2 = \<lparr> riskLevel = ''low'', score = 2, recommendation = ''Low typhoid risk'',
           matchingSymptoms = [Str ''Fever'', Str ''rash''] \<rparr>"
    by simp
  then have t2: "riskLevel t2 = ''low''" by simp
  from r1 r2 eq t1 t2 show ?thesis by blast
qed

subsection \<open>C8: order and repetition of the entries\<close>

text \<open>
  C8: two reports with the same entries in another order get the same result from either
  scorer (the same error when an entry is ill-formed), and \<open>n\<close> further copies of an entry
  whose name is in the catalog raise the score by \<open>n\<close>.
\<close>

theorem scoring_is_order_invariant:
  "(mset xs = mset ys \<longrightarrow>
      assessMalariaRisk (Arr xs) tm = assessMalariaRisk (Arr ys) tm
      \<and> assessTyphoidRisk (Arr xs) tt = assessTyphoidRisk (Arr ys) tt)
   \<and> (list_all wellFormedEntry zs \<and> wellFormedEntry s \<and> inCatalog malariaSymptoms s \<longrightarrow>
        (\<exists>a b. assessMalariaRisk (Arr zs) tm = Inr a
             \<and> assessMalariaRisk (Arr (replicate n s @ zs)) tm = Inr b
             \<and> score b = n + score a))
   \<and> (list_all wellFormedEntry zs \<and> wellFormedEntry s \<and> inCatalog typhoidSymptoms s \<longrightarrow>
        (\<exists>a b. assessTyphoidRisk (Arr zs) tt = Inr a
             \<and> assessTyphoidRisk (Arr (replicate n s @ zs)) tt = Inr b
             \<and> score b = n + score a))"
proof (intro conjI impI)
  assume p: "mset xs = mset ys"
  show "assessMalariaRisk (Arr xs) tm = assessMalariaRisk (Arr ys) tm"
  proof (cases "list_all wellFormedEntry xs")
    case True
    with p have "list_all wellFormedEntry ys" by (simp add: mset_list_all [of xs ys])
    with True show ?thesis
      by (simp add: assessMalariaRisk_wellFormed mset_matchCount [OF p])
  next
    case False
    with p have "\<not> list_all wellFormedEntry ys" by (simp add: mset_list_all [of xs ys])
    with False show ?thesis by (simp add: assessMalariaRisk_illFormed)
  qed
  show "assessTyphoidRisk (Arr xs) tt = assessTyphoidRisk (Arr ys) tt"
  proof (cases "list_all wellFormedEntry xs")
    case True
    with p have "list_all wellFormedEntry ys" by (simp add: mset_list_all [of xs ys])
    with True show ?thesis
      by (simp add: assessTyphoidRisk_wellFormed mset_matchCount [OF p])
  next
    case False
    with p have "\<not> list_all wellFormedEntry ys" by (simp add: mset_list_all [of xs ys])
    with False show ?thesis by (simp add: assessTyphoidRisk_illFormed)
  qed
next
  assume h: "list_all wellFormedEntry zs \<and> wellFormedEntry s \<and> inCatalog malariaSymptoms s"
  then have "list_all wellFormedEntry (replicate n s @ zs)"
    by (auto simp: list_all_iff)
  with h show "\<exists>a b. assessMalariaRisk (Arr zs) tm = Inr a
             \<and> assessMalariaRisk (Arr (replicate n s @ zs)) tm = Inr b
             \<and> score b = n + score a"
    by (simp add: assessMalariaRisk_wellFormed matchCount_replicate)
next
  assume h: "list_all wellFormedEntry zs \<and> wellFormedEntry s \<and> inCatalog typhoidSymptoms s"
  then have "list_all wellFormedEntry (replicate n s @ zs)"
    by (auto simp: list_all_iff)
  with h show "\<exists>a b. assessTyphoidRisk (Arr zs) tt = Inr a
             \<and> assessTyphoidRisk (Arr (replicate n s @ zs)) tt = Inr b
             \<and> score b = n + score a"
    by (simp add: assessTyphoidRisk_wellFormed matchCount_replicate)
qed

theorem scoring_is_order_invariant_witness:
  "mset [Obj [(''symptom'', Str ''fever'')], Obj [(''symptom'', Str ''rash'')],
         Obj [(''symptom'', Str ''chills'')]]
     = mset [Obj [(''symptom'', Str ''chills'')], Obj [(''symptom'', Str ''fever'')],
             Obj [(''symptom'', Str ''rash'')]]
   \<and> assessMalariaRisk
        (Arr [Obj [(''symptom'', Str ''fever'')], Obj [(''symptom'', Str ''rash'')],
              Obj [(''symptom'', Str ''chills'')]]) Undefined
     = assessMalariaRisk
        (Arr [Obj [(''symptom'', Str ''chills'')], Obj [(''symptom'', Str ''fever'')],
              Obj [(''symptom'', Str ''rash'')]]) Undefined
   \<and> (\<exists>a b. assessMalariaRisk (Arr [Obj [(''symptom'', Str ''rash'')]]) Undefined = Inr a
           \<and> assessMalariaRisk
                (Arr [Obj [(''symptom'', Str ''Fever'')], Obj [(''symptom'', Str ''Fever'')],
                      Obj [(''symptom'', Str ''Fever'')], Obj [(''symptom'', Str ''rash'')]])
                Undefined = Inr b
           \<and> score b = 3 + score a)"
proof -
  let ?f = "Obj [(''symptom'', Str ''fever'')]"
  let ?r = "Obj [(''symptom'', Str ''rash'')]"
  let ?c = "Obj [(''symptom'', Str ''chills'')]"
  let ?F = "Obj [(''symptom'', Str ''Fever'')]"
  note r = scoring_is_order_invariant [where xs = "[?f, ?r, ?c]" and ys = "[?c, ?f, ?r]"
      and tm = Undefined and tt = Undefined and zs = "[?r]" and s = ?F and n = 3]
  have p: "mset [?f, ?r, ?c] = mset [?c, ?f, ?r]"
    by (simp add: add.commute add.left_commute)
  have h: "list_all wellFormedEntry [?r] \<and> wellFormedEntry ?F \<and> inCatalog malariaSymptoms ?F"
    by code_simp
  have rep: "replicate 3 ?F @ [?r] = [?F, ?F, ?F, ?r]"
    by (simp add: numeral_3_eq_3)
  from r p have 1: "assessMalariaRisk (Arr [?f, ?r, ?c]) Undefined
      = assessMalariaRisk (Arr [?c, ?f, ?r]) Undefined"
    by blast
  from r h have "\<exists>a b. assessMalariaRisk (Arr [?r]) Undefined = Inr a
           \<and> assessMalariaRisk (Arr (replicate 3 ?F @ [?r])) Undefined = Inr b
           \<and> score b = 3 + score a"
    by blast
  then have 2: "\<exists>a b. assessMalariaRisk (Arr [?r]) Undefined = Inr a
           \<and> assessMalariaRisk (Arr [?F, ?F, ?F, ?r]) Undefined = Inr b
           \<and> score b = 3 + score a"
    unfolding rep .
  from p 1 2 show ?thesis by (intro conjI)
qed

subsection \<open>C9: what creation writes and what an update leaves alone\<close>




subsection \<open>C10: a positive test is the exact string\<close>

text \<open>
  C10: for a report of well-formed entries whose score is below 5, the tier of a disease is
  high exactly when one of its two confirmatory tests is the string \<^verbatim>\<open>positive\<close>; a test
  given as a string is positive only when it is that very string, so \<^verbatim>\<open>Positive\<close>,
  \<^verbatim>\<open>negative\<close>, \<^verbatim>\<open>not-done\<close> and an absent field are not. Symptom names are lowercased
  before the lookup: the witness scores \<^verbatim>\<open>FEVER\<close>.
\<close>

theorem positive_is_exact:
  assumes "list_all wellFormedEntry xs"
  shows "(\<exists>m. assessMalariaRisk (Arr xs) tm = Inr m
            \<and> (score m < 5 \<longrightarrow>
                 (riskLevel m = ''high'') =
                 (optchain tm ''rapidTest'' = Str ''positive''
                    \<or> optchain tm ''microscopy'' = Str ''positive'')))
       \<and> (\<exists>t. assessTyphoidRisk (Arr xs) tt = Inr t
            \<and> (score t < 5 \<longrightarrow>
                 (riskLevel t = ''high'') =
                 (optchain tt ''widalTest'' = Str ''positive''
                    \<or> optchain tt ''bloodCulture'' = Str ''positive'')))
       \<and> (optchain (Obj [(''rapidTest'', Str v), (''microscopy'', Str w)]) ''rapidTest''
             = Str ''positive'') = (v = ''positive'')
       \<and> (optchain (Obj [(''widalTest'', Str v), (''bloodCulture'', Str w)]) ''bloodCulture''
             = Str ''positive'') = (w = ''positive'')"
  using assms
  by (simp add: assessMalariaRisk_wellFormed assessTyphoidRisk_wellFormed tierOf_def
        malariaPositive_def typhoidPositive_def optchain_def)

theorem positive_is_exact_witness:
  "list_all wellFormedEntry [Obj [(''symptom'', Str ''FEVER'')]]
   \<and> (\<exists>m. assessMalariaRisk (Arr [Obj [(''symptom'', Str ''FEVER'')]])
              (Obj [(''rapidTest'', Str ''Positive''), (''microscopy'', Str ''POSITIVE'')]) = Inr m
           \<and> score m = 1 \<and> riskLevel m \<noteq> ''high'')
   \<and> (\<exists>m. assessMalariaRisk (Arr [Obj [(''symptom'', Str ''FEVER'')]])
              (Obj [(''rapidTest'', Str ''negative''), (''microscopy'', Str ''positive'')]) = Inr m
           \<and> score m = 1 \<and> riskLevel m = ''high'')"
proof -
  let ?xs = "[Obj [(''symptom'', Str ''FEVER'')]]"
  let ?t1 = "Obj [(''rapidTest'', Str ''Positive''), (''microscopy'', Str ''POSITIVE'')]"
  let ?t2 = "Obj [(''rapidTest'', Str ''negative''), (''microscopy'', Str ''positive'')]"
  have wf: "list_all wellFormedEntry ?xs" by code_simp
  have l1: "\<not> (optchain ?t1 ''rapidTest'' = Str ''positive''
                \<or> optchain ?t1 ''microscopy'' = Str ''positive'')"
    by code_simp
  have l2: "optchain ?t2 ''rapidTest'' = Str ''positive''
                \<or> optchain ?t2 ''microscopy'' = Str ''positive''"
    by code_simp
  have e1: "assessMalariaRisk (Arr ?xs) ?t1 = Inr \<lparr> riskLevel = ''low'', score = 1 \<rparr>"
    by code_simp
  have e2: "assessMalariaRisk (Arr ?xs) ?t2 = Inr \<lparr> riskLevel = ''high'', score = 1 \<rparr>"
    by code_simp
  from positive_is_exact [OF wf, of ?t1 Undefined] obtain m1 where
    m1: "assessMalariaRisk (Arr ?xs) ?t1 = Inr m1"
    and i1: "score m1 < 5 \<longrightarrow> (riskLevel m1 = ''high'') =
                 (optchain ?t1 ''rapidTest'' = Str ''positive''
                    \<or> optchain ?t1 ''microscopy'' = Str ''positive'')"
    by blast
  from positive_is_exact [OF wf, of ?t2 Undefined] obtain m2 where
    m2: "assessMalariaRisk (Arr ?xs) ?t2 = Inr m2"
    and i2: "score m2 < 5 \<longrightarrow> (riskLevel m2 = ''high'') =
                 (optchain ?t2 ''rapidTest'' = Str ''positive''
                    \<or> optchain ?t2 ''microscopy'' = Str ''positive'')"
    by blast
  from m1 e1 have "m1 = \<lparr> riskLevel = ''low'', score = 1 \<rparr>" by simp
  then have s1: "score m1 = 1" by simp
  from m2 e2 have "m2 = \<lparr> riskLevel = ''high'', score = 1 \<rparr>" by simp
  then have s2: "score m2 = 1" by simp
  from s1 i1 l1 have n1: "riskLevel m1 \<noteq> ''high''" by simp
  from s2 i2 l2 have h2: "riskLevel m2 = ''high''" by simp
  from m1 s1 n1 have 1: "\<exists>m. assessMalariaRisk (Arr ?xs) ?t1 = Inr m
           \<and> score m = 1 \<and> riskLevel m \<noteq> ''high''"
    by blast
  from m2 s2 h2 have 2: "\<exists>m. assessMalariaRisk (Arr ?xs) ?t2 = Inr m
           \<and> score m = 1 \<and> riskLevel m = ''high''"
    by blast
  from wf 1 2 show ?thesis by (intro conjI)
qed

end
